theory Spec2Isabelle
  imports Main "HOL-Library.Word"
begin

section \<open>JavaScript values used by the account editor\<close>

text \<open>
  A JavaScript string is a sequence of UTF-16 code units; \<open>length\<close> counts code units,
  as \<^verbatim>\<open>.length\<close> does. ASCII literals of the source are written \<open>ascii ''...''\<close>,
  the Cyrillic ones as their code units.
\<close>

type_synonym code_unit = "16 word"
type_synonym jstring = "code_unit list"

definition ascii :: "string \<Rightarrow> jstring" where
  "ascii s = map of_char s"

text \<open>
  The exceptions the modelled code can raise: a property read on \<^verbatim>\<open>undefined\<close>, and a
  call with more arguments than the engine accepts.
\<close>

datatype js_error = TypeError | RangeError

subsection \<open>Numbers\<close>

text \<open>
  A JavaScript number is an IEEE 754 double. The identifiers of the records are
  integer-valued doubles, held here as their integer values. Comparison and \<^verbatim>\<open>Math.max\<close>
  are exact on them; \<^verbatim>\<open>+\<close> gives the exact sum rounded to the nearest double, ties to
  the even significand. Every integer below \<open>2^53\<close> in magnitude is a double; from there
  on a double keeps 53 significant bits, and \<open>scale a\<close> is the number of low bits it drops.
\<close>

function scale :: "int \<Rightarrow> nat" where
  "scale a = (if a < 2 ^ 53 then 0 else Suc (scale (a div 2)))"
  by pat_completeness auto
termination
  by (relation "measure nat") auto

declare scale.simps [simp del]

definition to_double :: "int \<Rightarrow> int" where
  "to_double x =
     (let a = \<bar>x\<bar>;
          q = 2 ^ scale a;
          m = a div q;
          r = a mod q;
          m' = (if q < 2 * r \<or> (2 * r = q \<and> odd m) then m + 1 else m)
      in sgn x * (m' * q))"

text \<open>\<^verbatim>\<open>a + b\<close> on integer-valued doubles.\<close>

definition number_add :: "int \<Rightarrow> int \<Rightarrow> int" where
  "number_add a b = to_double (a + b)"

subsection \<open>String.prototype.trim, split and Array.prototype.join\<close>

text \<open>
  \<^verbatim>\<open>trim\<close> strips WhiteSpace and LineTerminator code units from both ends
  (ECMAScript: TAB, VT, FF, SP, NBSP, ZWNBSP, the Zs category, LF, CR, LS, PS).
\<close>

definition is_white_space :: "code_unit \<Rightarrow> bool" where
  "is_white_space c \<longleftrightarrow>
     c \<in> {0x0009, 0x000A, 0x000B, 0x000C, 0x000D, 0x0020, 0x00A0, 0x1680,
          0x2000, 0x2001, 0x2002, 0x2003, 0x2004, 0x2005, 0x2006, 0x2007,
          0x2008, 0x2009, 0x200A, 0x2028, 0x2029, 0x202F, 0x205F, 0x3000, 0xFEFF}"

definition trim :: "jstring \<Rightarrow> jstring" where
  "trim s = rev (dropWhile is_white_space (rev (dropWhile is_white_space s)))"

text \<open>
  \<^verbatim>\<open>s.split(sep)\<close> for a one-unit separator: the segments between the separators, in
  order; the empty string gives one empty segment. \<open>acc\<close> is the current segment, reversed.
\<close>

fun split_acc :: "code_unit \<Rightarrow> jstring \<Rightarrow> jstring \<Rightarrow> jstring list" where
  "split_acc sep acc [] = [rev acc]"
| "split_acc sep acc (c # cs) =
     (if c = sep then rev acc # split_acc sep [] cs else split_acc sep (c # acc) cs)"

definition split :: "jstring \<Rightarrow> code_unit \<Rightarrow> jstring list" where
  "split s sep = split_acc sep [] s"

fun join :: "jstring list \<Rightarrow> jstring \<Rightarrow> jstring" where
  "join [] sep = []"
| "join [x] sep = x"
| "join (x # y # ys) sep = x @ sep @ join (y # ys) sep"

definition semicolon :: code_unit where
  "semicolon = 0x3B"

section \<open>Field validation rules (HomeView.vue)\<close>

text \<open>A rule returns \<^verbatim>\<open>true\<close> or an error text: \<^verbatim>\<open>type Rule = (val: string) => string | true\<close>.\<close>

datatype rule_result = RTrue | RText jstring

text \<open>
  \<^verbatim>\<open>SelectItem = { value: string, label: string }\<close>; the rule tests the \<^verbatim>\<open>value\<close>
  sub-field against \<^verbatim>\<open>undefined\<close>, so it is optional here.
\<close>

record SelectItem =
  item_value :: "jstring option"
  item_label :: jstring

text \<open>What \<^verbatim>\<open>required\<close> can be applied to at run time.\<close>

datatype rule_arg = Undefined | Str jstring | Item SelectItem

text \<open>\<^verbatim>\<open>const errorText = '...'\<close>: the Russian for "This field is required".\<close>

definition errorText :: jstring where
  "errorText = [0x042D, 0x0442, 0x043E, 0x0020,
                0x043E, 0x0431, 0x044F, 0x0437, 0x0430, 0x0442, 0x0435, 0x043B, 0x044C,
                0x043D, 0x043E, 0x0435, 0x0020,
                0x043F, 0x043E, 0x043B, 0x0435]"

text \<open>
  \<^verbatim>\<open>
  const required = (val: string | SelectItem) => {
    if (typeof val === 'string') {
      return (val !== undefined && val.length > 0) || errorText
    } else {
      return (val.value !== undefined && val.value.length > 0) || errorText
    }
  }
  \<close>
  \<^verbatim>\<open>typeof undefined\<close> is not \<^verbatim>\<open>'string'\<close>, so \<^verbatim>\<open>undefined\<close> takes the second branch,
  where reading \<^verbatim>\<open>val.value\<close> raises a TypeError.
\<close>

fun required :: "rule_arg \<Rightarrow> js_error + rule_result" where
  "required (Str val) = Inr (if length val > 0 then RTrue else RText errorText)"
| "required (Item val) =
     (case item_value val of
        None \<Rightarrow> Inr (RText errorText)
      | Some v \<Rightarrow> Inr (if length v > 0 then RTrue else RText errorText))"
| "required Undefined = Inl TypeError"

section \<open>The record store (stores/records.ts)\<close>

text \<open>\<^verbatim>\<open>tags: { text: string }[]\<close>: a label object.\<close>

record label =
  label_text :: jstring

text \<open>
  The interface declares \<open>tags\<close> as a label array, but \<^verbatim>\<open>Object.assign\<close> is untyped and the
  commit controller can hand it a raw string; \<^verbatim>\<open>unpackTags\<close> tests for that case with
  \<^verbatim>\<open>Array.isArray\<close>. So the field holds either shape.
\<close>

datatype tags_value = Labels "label list" | Raw jstring

text \<open>
  \<^verbatim>\<open>interface Record { id: number; tags; type: string; login: string; password: string | null }\<close>.
  An identifier is an integer-valued number, held as its integer value; sums of
  identifiers are rounded as doubles are (\<open>number_add\<close>).
\<close>

record Record =
  r_id :: int
  r_tags :: tags_value
  r_type :: jstring
  r_login :: jstring
  r_password :: "jstring option"

text \<open>\<^verbatim>\<open>Partial<Record>\<close>: each field present or not.\<close>

record Partial_Record =
  p_id :: "int option"
  p_tags :: "tags_value option"
  p_type :: "jstring option"
  p_login :: "jstring option"
  p_password :: "jstring option option"

definition no_fields :: Partial_Record where
  "no_fields = \<lparr>p_id = None, p_tags = None, p_type = None, p_login = None, p_password = None\<rparr>"

text \<open>\<^verbatim>\<open>Object.assign(record, updatedFields)\<close>: every field the source object has overwrites.\<close>

definition object_assign :: "Record \<Rightarrow> Partial_Record \<Rightarrow> Record" where
  "object_assign record updatedFields =
     \<lparr>r_id = (case p_id updatedFields of None \<Rightarrow> r_id record | Some v \<Rightarrow> v),
      r_tags = (case p_tags updatedFields of None \<Rightarrow> r_tags record | Some v \<Rightarrow> v),
      r_type = (case p_type updatedFields of None \<Rightarrow> r_type record | Some v \<Rightarrow> v),
      r_login = (case p_login updatedFields of None \<Rightarrow> r_login record | Some v \<Rightarrow> v),
      r_password = (case p_password updatedFields of None \<Rightarrow> r_password record | Some v \<Rightarrow> v)\<rparr>"

record records_state =
  records :: "Record list"

text \<open>The Cyrillic literal of the initial list (\<open>Znachenie\<close>, "value").\<close>

definition znachenie :: jstring where
  "znachenie = [0x0417, 0x043D, 0x0430, 0x0447, 0x0435, 0x043D, 0x0438, 0x0435]"

definition initial_state :: records_state where
  "initial_state =
     \<lparr>records =
        [\<lparr>r_id = 1, r_tags = Labels [\<lparr>label_text = ascii ''XXX''\<rparr>],
          r_type = ascii ''ldap'', r_login = [], r_password = Some []\<rparr>,
         \<lparr>r_id = 2,
          r_tags = Labels [\<lparr>label_text = ascii ''XXX''\<rparr>, \<lparr>label_text = ascii ''YYYYYYYYY''\<rparr>],
          r_type = ascii ''local'', r_login = znachenie, r_password = Some []\<rparr>,
         \<lparr>r_id = 3, r_tags = Labels [],
          r_type = [], r_login = znachenie, r_password = Some znachenie\<rparr>]\<rparr>"

definition getRecordById :: "records_state \<Rightarrow> int \<Rightarrow> Record option" where
  "getRecordById state ident = find (\<lambda>record. r_id record = ident) (records state)"

definition addRecord :: "Record \<Rightarrow> records_state \<Rightarrow> records_state" where
  "addRecord newRecord this = this\<lparr>records := records this @ [newRecord]\<rparr>"

text \<open>
  \<^verbatim>\<open>find\<close> returns a reference to the first record with the identifier, and
  \<^verbatim>\<open>Object.assign\<close> mutates that object where it sits in the array.
\<close>

fun assign_found :: "int \<Rightarrow> Partial_Record \<Rightarrow> Record list \<Rightarrow> Record list" where
  "assign_found ident updatedFields [] = []"
| "assign_found ident updatedFields (record # rest) =
     (if r_id record = ident then object_assign record updatedFields # rest
      else record # assign_found ident updatedFields rest)"

text \<open>The store's \<^verbatim>\<open>updateRecord(id, updatedFields)\<close> action.\<close>

definition store_updateRecord :: "int \<Rightarrow> Partial_Record \<Rightarrow> records_state \<Rightarrow> records_state" where
  "store_updateRecord ident updatedFields this =
     (case find (\<lambda>record. r_id record = ident) (records this) of
        None \<Rightarrow> this
      | Some record \<Rightarrow> this\<lparr>records := assign_found ident updatedFields (records this)\<rparr>)"

definition removeRecord :: "int \<Rightarrow> records_state \<Rightarrow> records_state" where
  "removeRecord ident this = this\<lparr>records := filter (\<lambda>record. r_id record \<noteq> ident) (records this)\<rparr>"

section \<open>The table view (views/HomeView.vue)\<close>

subsection \<open>Rows\<close>

datatype field_kind = Input | Select

text \<open>
  The rules a cell carries, as data: \<^verbatim>\<open>required\<close> and \<^verbatim>\<open>(val) => limitedLength(val, n)\<close>.
\<close>

datatype rule = Required | LimitedLength nat

datatype field_props =
  InputProps jstring "rule list"
| SelectProps "SelectItem list" "rule list"

text \<open>
  \<^verbatim>\<open>RowElement\<close>. \<open>fieldRef\<close> is the handle of the rendered widget: \<open>None\<close> when no widget
  is mounted, \<open>Some b\<close> when one is and its \<^verbatim>\<open>validate()\<close> answers \<open>b\<close> (the widget
  belongs to the UI library; its answer is an input here).
\<close>

record cell =
  fieldRef :: "bool option"
  field :: field_kind
  fieldProps :: field_props
  cell_value :: jstring

record Row =
  row_id :: int
  row_tags :: cell
  row_type :: cell
  row_login :: cell
  row_password :: cell

text \<open>The names of the five entries of \<^verbatim>\<open>columns\<close>.\<close>

datatype col_name = CTags | CType | CLogin | CPassword | CDeletable

text \<open>\<^verbatim>\<open>props.row[props.col.name]\<close>: a row has no \<^verbatim>\<open>deletable\<close> property.\<close>

fun row_cell :: "Row \<Rightarrow> col_name \<Rightarrow> cell option" where
  "row_cell row CTags = Some (row_tags row)"
| "row_cell row CType = Some (row_type row)"
| "row_cell row CLogin = Some (row_login row)"
| "row_cell row CPassword = Some (row_password row)"
| "row_cell row CDeletable = None"

record props =
  props_row :: Row
  props_col :: col_name

definition recordTypes :: "SelectItem list" where
  "recordTypes =
     [\<lparr>item_value = Some (ascii ''ldap''), item_label = ascii ''LDAP''\<rparr>,
      \<lparr>item_value = Some (ascii ''local''),
       item_label = [0x041B, 0x043E, 0x043A, 0x0430, 0x043B, 0x044C, 0x043D, 0x0430, 0x044F]\<rparr>]"

text \<open>
  \<^verbatim>\<open>
  function unpackTags(tagsArray) {
    if (!Array.isArray(tagsArray) || !tagsArray) return ''
    return tagsArray.map((item) => item.text).join('; ')
  }
  \<close>
\<close>

fun unpackTags :: "tags_value \<Rightarrow> jstring" where
  "unpackTags (Raw s) = []"
| "unpackTags (Labels tagsArray) = join (map label_text tagsArray) (ascii ''; '')"

text \<open>
  \<^verbatim>\<open>constructRow(record)\<close>; \<^verbatim>\<open>record.password ?? ''\<close> shows a null password as the empty
  string.
\<close>

definition constructRow :: "Record \<Rightarrow> Row" where
  "constructRow record =
     \<lparr>row_id = r_id record,
      row_tags = \<lparr>fieldRef = None, field = Input,
                  fieldProps = InputProps (ascii ''text'') [LimitedLength 50],
                  cell_value = unpackTags (r_tags record)\<rparr>,
      row_type = \<lparr>fieldRef = None, field = Select,
                  fieldProps = SelectProps recordTypes [Required],
                  cell_value = r_type record\<rparr>,
      row_login = \<lparr>fieldRef = None, field = Input,
                   fieldProps = InputProps (ascii ''text'') [Required, LimitedLength 100],
                   cell_value = r_login record\<rparr>,
      row_password = \<lparr>fieldRef = None, field = Input,
                      fieldProps = InputProps (ascii ''password'') [Required, LimitedLength 100],
                      cell_value = (case r_password record of None \<Rightarrow> [] | Some p \<Rightarrow> p)\<rparr>\<rparr>"

text \<open>The component's state: the displayed rows, the store and the loading flag.\<close>

record view =
  rows :: "Row list"
  recordsStore :: records_state
  isLoading :: bool

text \<open>\<^verbatim>\<open>rows = ref(recordsStore.records.map((record) => constructRow(record)))\<close>\<close>

definition mount :: "records_state \<Rightarrow> view" where
  "mount st = \<lparr>rows = map constructRow (records st), recordsStore = st, isLoading = False\<rparr>"

subsection \<open>Cell visibility\<close>

text \<open>
  \<^verbatim>\<open>
  function passwordCellHide(props): boolean {
    const colName = props.col.name
    const cell = props.row[colName]
    if (cell && cell.field === 'input' && colName !== 'password') {
      return true
    } else if (colName === 'password' && props.row.type.value !== 'ldap') {
      return true
    }
    return false
  }
  \<close>
\<close>

definition passwordCellHide :: "props \<Rightarrow> bool" where
  "passwordCellHide props =
     (let colName = props_col props;
          cell = row_cell (props_row props) colName
      in if (case cell of None \<Rightarrow> False | Some c \<Rightarrow> field c = Input) \<and> colName \<noteq> CPassword
         then True
         else if colName = CPassword \<and> cell_value (row_type (props_row props)) \<noteq> ascii ''ldap''
         then True
         else False)"

text \<open>
  The three table cells of the body template, each behind its \<^verbatim>\<open>v-if\<close>: the text input
  (\<^verbatim>\<open>v-if="passwordCellHide(props)"\<close>), the selector and the delete button.
\<close>

definition renders_input :: "props \<Rightarrow> bool" where
  "renders_input props = passwordCellHide props"

definition renders_select :: "props \<Rightarrow> bool" where
  "renders_select props =
     (case row_cell (props_row props) (props_col props) of
        None \<Rightarrow> False
      | Some c \<Rightarrow> field c = Select)"

definition renders_delete :: "props \<Rightarrow> bool" where
  "renders_delete props = (props_col props = CDeletable)"

subsection \<open>Adding and deleting rows\<close>

text \<open>\<^verbatim>\<open>Array.prototype.findIndex\<close>: the first index whose element passes, or \<open>-1\<close>.\<close>

fun findIndex :: "('a \<Rightarrow> bool) \<Rightarrow> 'a list \<Rightarrow> int" where
  "findIndex P [] = - 1"
| "findIndex P (x # xs) =
     (if P x then 0 else (let i = findIndex P xs in if i < 0 then - 1 else i + 1))"

text \<open>
  \<^verbatim>\<open>Array.prototype.slice(start, end)\<close>: a negative bound counts from the end, and both
  are clamped to the array.
\<close>

definition slice :: "'a list \<Rightarrow> int \<Rightarrow> int \<Rightarrow> 'a list" where
  "slice xs start fin =
     (let len = int (length xs);
          k = (if start < 0 then max (len + start) 0 else min start len);
          final = (if fin < 0 then max (len + fin) 0 else min fin len)
      in take (nat (final - k)) (drop (nat k) xs))"

text \<open>\<^verbatim>\<open>slice(start)\<close>: to the end of the array.\<close>

definition slice_from :: "'a list \<Rightarrow> int \<Rightarrow> 'a list" where
  "slice_from xs start = slice xs start (int (length xs))"

text \<open>\<^verbatim>\<open>index !== undefined\<close>: \<^verbatim>\<open>findIndex\<close> returns a number, which never is \<^verbatim>\<open>undefined\<close>.\<close>

definition not_undefined :: "int \<Rightarrow> bool" where
  "not_undefined index = True"

text \<open>
  \<^verbatim>\<open>
  function deleteRow(id: number) {
    const index = rows.value.findIndex((row) => row.id === id)
    if (index !== undefined) {
      recordsStore.removeRecord(id)
      rows.value = [...rows.value.slice(0, index), ...rows.value.slice(index + 1)]
    }
  }
  \<close>
\<close>

definition deleteRow :: "int \<Rightarrow> view \<Rightarrow> view" where
  "deleteRow ident v =
     (let index = findIndex (\<lambda>row. row_id row = ident) (rows v)
      in if not_undefined index
         then v\<lparr>recordsStore := removeRecord ident (recordsStore v),
                rows := slice (rows v) 0 index @ slice_from (rows v) (index + 1)\<rparr>
         else v)"

text \<open>
  \<^verbatim>\<open>rows.value.length > 0 ? Math.max(...rows.value.map((obj) => obj.id)) + 1 : 0\<close>.
  The spread passes one argument for each row. How many arguments a call accepts is the
  engine's matter, not the language's: \<open>max_arguments\<close> is that number, and a longer row
  list raises a RangeError.
\<close>

definition latestId :: "nat \<Rightarrow> Row list \<Rightarrow> js_error + int" where
  "latestId max_arguments rs =
     (case map row_id rs of
        [] \<Rightarrow> Inr 0
      | i # ids \<Rightarrow>
          if max_arguments < length rs then Inl RangeError
          else Inr (number_add (fold max ids i) 1))"

text \<open>
  \<^verbatim>\<open>
  function addRow() {
    isLoading.value = true
    const latestId = ...
    const newRecord = { id: latestId, tags: [], type: '', login: '', password: '' }
    rows.value = [...rows.value, constructRow(newRecord)]
    recordsStore.addRecord(newRecord)
    isLoading.value = false
  }
  \<close>
  The result is the exception raised, if any, and the view afterwards: when \<^verbatim>\<open>Math.max\<close>
  raises, the loading flag stays set and nothing else has changed.
\<close>

definition newRecord :: "int \<Rightarrow> Record" where
  "newRecord ident =
     \<lparr>r_id = ident, r_tags = Labels [], r_type = [], r_login = [], r_password = Some []\<rparr>"

definition addRow :: "nat \<Rightarrow> view \<Rightarrow> js_error option \<times> view" where
  "addRow max_arguments v =
     (let v1 = v\<lparr>isLoading := True\<rparr>
      in case latestId max_arguments (rows v1) of
           Inl e \<Rightarrow> (Some e, v1)
         | Inr n \<Rightarrow>
             (let new = newRecord n
              in (None, v1\<lparr>rows := rows v1 @ [constructRow new],
                           recordsStore := addRecord new (recordsStore v1),
                           isLoading := False\<rparr>)))"

subsection \<open>The commit controller\<close>

text \<open>\<^verbatim>\<open>Boolean(item)\<close> on a label object: every object is truthy.\<close>

definition Boolean :: "label \<Rightarrow> bool" where
  "Boolean item = True"

text \<open>
  \<^verbatim>\<open>value.split(';').map((item: string) => ({ text: item.trim() })).filter(Boolean)\<close>
\<close>

definition split_tags :: "jstring \<Rightarrow> label list" where
  "split_tags v = filter Boolean (map (\<lambda>item. \<lparr>label_text = trim item\<rparr>) (split v semicolon))"

text \<open>
  The object \<^verbatim>\<open>{ [field]: value }\<close> handed to the store, \<open>value\<close> being the cell's text
  except that
  \<^verbatim>\<open>if (field === 'tags' && value.length > 0) { value = value.split(';')... }\<close>.
  The \<^verbatim>\<open>deletable\<close> column has no cell and never gets here.
\<close>

fun committed_fields :: "col_name \<Rightarrow> jstring \<Rightarrow> Partial_Record" where
  "committed_fields CTags v =
     no_fields\<lparr>p_tags := Some (if length v > 0 then Labels (split_tags v) else Raw v)\<rparr>"
| "committed_fields CType v = no_fields\<lparr>p_type := Some v\<rparr>"
| "committed_fields CLogin v = no_fields\<lparr>p_login := Some v\<rparr>"
| "committed_fields CPassword v = no_fields\<lparr>p_password := Some (Some v)\<rparr>"
| "committed_fields CDeletable v = no_fields"

text \<open>
  \<^verbatim>\<open>
  function updateRecord(props) {
    const id = props.row.id
    const field = props.col.name
    let value = props.row[props.col.name].value
    const fieldRef = props.row[props.col.name].fieldRef
    if (!fieldRef || !fieldRef.validate()) { return }
    if (field === 'tags' && value.length > 0) { value = ... }
    recordsStore.updateRecord(id, { [field]: value })
    if (field === 'type' && value === 'ldap') {
      recordsStore.updateRecord(id, { password: null })
    }
  }
  \<close>
  The result is the store afterwards; reading \<^verbatim>\<open>.value\<close> of a missing cell raises.
\<close>

definition updateRecord :: "props \<Rightarrow> records_state \<Rightarrow> js_error + records_state" where
  "updateRecord props st =
     (case row_cell (props_row props) (props_col props) of
        None \<Rightarrow> Inl TypeError
      | Some c \<Rightarrow>
          (let ident = row_id (props_row props);
               fld = props_col props;
               v = cell_value c
           in case fieldRef c of
                None \<Rightarrow> Inr st
              | Some validates \<Rightarrow>
                  if \<not> validates then Inr st
                  else (let st1 = store_updateRecord ident (committed_fields fld v) st
                        in if fld = CType \<and> v = ascii ''ldap''
                           then Inr (store_updateRecord ident (no_fields\<lparr>p_password := Some None\<rparr>) st1)
                           else Inr st1)))"

text \<open>
  What the template does to a cell before a commit: \<^verbatim>\<open>v-model\<close> has written the text
  \<open>v\<close> into the cell, and the \<^verbatim>\<open>:ref\<close> callback has stored the mounted widget, whose
  \<^verbatim>\<open>validate()\<close> answers \<open>ok\<close>.
\<close>

definition edit :: "cell \<Rightarrow> jstring \<Rightarrow> bool \<Rightarrow> cell" where
  "edit c v ok = c\<lparr>cell_value := v, fieldRef := Some ok\<rparr>"

section \<open>Properties of the validation rules\<close>

text \<open>
  C6, as the claim states it, asks \<open>required\<close> to return the error text for the undefined
  value. The code raises a TypeError there instead of returning.
\<close>

theorem required_undefined_counterexample:
  "required Undefined \<noteq> Inr (RText errorText) \<and> required Undefined = Inl TypeError"
  by simp

text \<open>
  C6 (amended): on the values of its parameter type \<^verbatim>\<open>string | SelectItem\<close> the rule
  returns normally; a string fails (error text) exactly when it is empty, so \<^verbatim>\<open>""\<close> fails
  and \<^verbatim>\<open>"x"\<close> succeeds; a select item is judged on its \<^verbatim>\<open>value\<close> sub-field and fails
  exactly when that sub-field is undefined or empty.
\<close>

theorem required_string_and_select:
  "required (Str s) = Inr (if s = [] then RText errorText else RTrue)
   \<and> required (Str []) = Inr (RText errorText)
   \<and> required (Str (ascii ''x'')) = Inr RTrue
   \<and> required (Item it) =
       Inr (if item_value it = None \<or> item_value it = Some [] then RText errorText else RTrue)"
  by (simp add: ascii_def split: option.split)

section \<open>Cell visibility\<close>

text \<open>
  C2, as the claim states it, makes the password cell visible exactly for the type
  \<^verbatim>\<open>'ldap'\<close>. The code does the opposite: the row of an \<^verbatim>\<open>'ldap'\<close> record does not render
  the password input, and the row of a \<^verbatim>\<open>'local'\<close> record does.
\<close>

theorem password_cell_counterexample:
  "cell_value (row_type (constructRow ((newRecord 1)\<lparr>r_type := ascii ''ldap''\<rparr>))) = ascii ''ldap''
   \<and> \<not> renders_input \<lparr>props_row = constructRow ((newRecord 1)\<lparr>r_type := ascii ''ldap''\<rparr>),
                        props_col = CPassword\<rparr>
   \<and> renders_input \<lparr>props_row = constructRow ((newRecord 2)\<lparr>r_type := ascii ''local''\<rparr>),
                      props_col = CPassword\<rparr>"
  by (simp add: renders_input_def passwordCellHide_def constructRow_def newRecord_def ascii_def)

text \<open>
  C2 (amended): for every row, the password cell is rendered (visible and editable) if and
  only if the row's type value is not \<^verbatim>\<open>'ldap'\<close>; for the type \<^verbatim>\<open>'ldap'\<close> it is hidden, so
  once the type cell holds \<^verbatim>\<open>'ldap'\<close> the password cell is gone.
\<close>

theorem password_cell_rendered_iff_not_ldap:
  "renders_input \<lparr>props_row = row, props_col = CPassword\<rparr>
     \<longleftrightarrow> cell_value (row_type row) \<noteq> ascii ''ldap''"
  by (simp add: renders_input_def passwordCellHide_def)

section \<open>The tags transformation\<close>

text \<open>
  C4 asks that segments that are empty after trimming be discarded. The filter runs on the
  label objects, which are all truthy, so nothing is discarded: committing \<^verbatim>\<open>"a;"\<close> stores
  a second label with the empty text.
\<close>

theorem split_tags_keeps_empty_segment:
  "split_tags (ascii ''a;'') = [\<lparr>label_text = ascii ''a''\<rparr>, \<lparr>label_text = []\<rparr>]
   \<and> p_tags (committed_fields CTags (ascii ''a;''))
       = Some (Labels [\<lparr>label_text = ascii ''a''\<rparr>, \<lparr>label_text = []\<rparr>])"
  by (simp add: split_tags_def split_def ascii_def semicolon_def trim_def is_white_space_def
      Boolean_def no_fields_def)

subsection \<open>Splitting a joined string\<close>

lemma split_acc_until_sep:
  "sep \<notin> set x \<Longrightarrow> split_acc sep acc (x @ sep # rest) = (rev acc @ x) # split_acc sep [] rest"
  by (induction x arbitrary: acc) auto

lemma split_acc_no_sep:
  "sep \<notin> set x \<Longrightarrow> split_acc sep acc x = [rev acc @ x]"
  by (induction x arbitrary: acc) auto

lemma join_Cons: "join (x # xs) sep = (if xs = [] then x else x @ sep @ join xs sep)"
  by (cases xs) auto

lemma join_nonempty: "xs \<noteq> [] \<Longrightarrow> \<forall>x\<in>set xs. x \<noteq> [] \<Longrightarrow> join xs sep \<noteq> []"
  by (cases xs) (auto simp: join_Cons)

lemma ascii_separator: "ascii ''; '' = [semicolon, 0x20]"
  by (simp add: ascii_def semicolon_def)

text \<open>Every segment but the first comes back with the separator's space in front.\<close>

lemma split_join:
  "semicolon \<notin> set x \<Longrightarrow> \<forall>y\<in>set xs. semicolon \<notin> set y \<Longrightarrow>
   split (join (x # xs) (ascii ''; '')) semicolon = x # map (\<lambda>y. 0x20 # y) xs"
proof (induction xs arbitrary: x)
  case Nil
  then show ?case by (simp add: split_def split_acc_no_sep)
next
  case (Cons y ys)
  have sp: "semicolon \<notin> set (0x20 # y)"
    using Cons.prems by (simp add: semicolon_def)
  have "join (x # y # ys) (ascii ''; '') = x @ semicolon # join ((0x20 # y) # ys) (ascii ''; '')"
    by (simp add: join_Cons ascii_separator)
  then have "split (join (x # y # ys) (ascii ''; '')) semicolon
      = x # split (join ((0x20 # y) # ys) (ascii ''; '')) semicolon"
    using Cons.prems(1) by (simp add: split_def split_acc_until_sep)
  also have "split (join ((0x20 # y) # ys) (ascii ''; '')) semicolon
      = (0x20 # y) # map (\<lambda>y. 0x20 # y) ys"
    using Cons.IH [OF sp] Cons.prems(2) by simp
  finally show ?case by simp
qed

lemma dropWhile_hd: "x \<noteq> [] \<Longrightarrow> \<not> P (hd x) \<Longrightarrow> dropWhile P x = x"
  by (cases x) auto

lemma trim_clean:
  assumes "x \<noteq> []" "\<not> is_white_space (hd x)" "\<not> is_white_space (last x)"
  shows "trim x = x"
proof -
  have "dropWhile is_white_space x = x" using assms by (simp add: dropWhile_hd)
  moreover have "dropWhile is_white_space (rev x) = rev x"
    using assms by (simp add: dropWhile_hd hd_rev)
  ultimately show ?thesis by (simp add: trim_def)
qed

lemma trim_space_clean:
  assumes "x \<noteq> []" "\<not> is_white_space (hd x)" "\<not> is_white_space (last x)"
  shows "trim (0x20 # x) = x"
proof -
  have "is_white_space 0x20" by (simp add: is_white_space_def)
  then have "trim (0x20 # x) = trim x" by (simp add: trim_def)
  then show ?thesis using assms by (simp add: trim_clean)
qed

lemma split_tags_unpackTags:
  assumes "ls \<noteq> []"
    and "\<forall>l\<in>set ls. label_text l \<noteq> [] \<and> semicolon \<notin> set (label_text l)
           \<and> \<not> is_white_space (hd (label_text l)) \<and> \<not> is_white_space (last (label_text l))"
  shows "split_tags (unpackTags (Labels ls)) = ls"
proof -
  obtain l ls' where ls: "ls = l # ls'" using assms(1) by (cases ls) auto
  have "split (join (map label_text ls) (ascii ''; '')) semicolon
        = label_text l # map (\<lambda>y. 0x20 # y) (map label_text ls')"
    using assms(2) unfolding ls by (simp add: split_join)
  moreover have "\<lparr>label_text = trim (label_text l)\<rparr> = l"
    using assms(2) unfolding ls by (simp add: trim_clean)
  moreover have
    "map (\<lambda>item. \<lparr>label_text = trim item\<rparr>) (map (\<lambda>y. 0x20 # y) (map label_text ls')) = ls'"
    using assms(2) unfolding ls by (induction ls') (auto simp: trim_space_clean)
  ultimately show ?thesis
    by (simp add: split_tags_def Boolean_def ls)
qed

subsection \<open>The round trip\<close>

text \<open>
  C5, as the claim states it, covers the empty label list too: no text of it contains a
  semicolon. The row builder shows it as the empty string, whose commit skips the split and
  stores the raw string, not the empty list.
\<close>

theorem tags_round_trip_counterexample:
  "unpackTags (Labels []) = []
   \<and> p_tags (committed_fields CTags (unpackTags (Labels []))) = Some (Raw [])
   \<and> p_tags (committed_fields CTags (unpackTags (Labels []))) \<noteq> Some (Labels [])"
  by (simp add: no_fields_def)

text \<open>
  C5 (amended): for every non-empty list of labels whose texts are non-empty, contain no
  semicolon and neither start nor end with white space, committing the string that
  \<open>unpackTags\<close> joins hands the store the original list.
\<close>

theorem tags_round_trip:
  assumes "ls \<noteq> []"
    and "\<forall>l\<in>set ls. label_text l \<noteq> [] \<and> semicolon \<notin> set (label_text l)
           \<and> \<not> is_white_space (hd (label_text l)) \<and> \<not> is_white_space (last (label_text l))"
  shows "p_tags (committed_fields CTags (unpackTags (Labels ls))) = Some (Labels ls)"
proof -
  have "map label_text ls \<noteq> []" "\<forall>x\<in>set (map label_text ls). x \<noteq> []"
    using assms by auto
  then have "join (map label_text ls) (ascii ''; '') \<noteq> []"
    by (rule join_nonempty)
  then have "unpackTags (Labels ls) \<noteq> []" by simp
  then show ?thesis
    using split_tags_unpackTags [OF assms] by (simp add: no_fields_def)
qed

text \<open>The labels of the second initial record make the round trip.\<close>

theorem tags_round_trip_witness:
  "p_tags (committed_fields CTags
     (unpackTags (Labels [\<lparr>label_text = ascii ''XXX''\<rparr>, \<lparr>label_text = ascii ''YYYYYYYYY''\<rparr>])))
   = Some (Labels [\<lparr>label_text = ascii ''XXX''\<rparr>, \<lparr>label_text = ascii ''YYYYYYYYY''\<rparr>])"
  using tags_round_trip [of "[\<lparr>label_text = ascii ''XXX''\<rparr>, \<lparr>label_text = ascii ''YYYYYYYYY''\<rparr>]"]
  by (simp add: ascii_def semicolon_def is_white_space_def)

section \<open>Deleting a row\<close>

text \<open>
  C7 asks that deleting an absent identifier leave the rows unchanged. \<^verbatim>\<open>findIndex\<close>
  answers \<open>-1\<close> for it, which passes the test against \<^verbatim>\<open>undefined\<close>; the two slices
  then are all rows but the last, and all rows. On the three initial rows, deleting the
  identifier 99 leaves five rows; the store is unchanged.
\<close>

theorem deleteRow_absent_id_duplicates_rows:
  "map row_id (rows (deleteRow 99 (mount initial_state))) = [1, 2, 1, 2, 3]
   \<and> map row_id (rows (mount initial_state)) = [1, 2, 3]
   \<and> recordsStore (deleteRow 99 (mount initial_state)) = initial_state"
  by (simp add: deleteRow_def mount_def initial_state_def constructRow_def not_undefined_def
      slice_def slice_from_def removeRecord_def)

subsection \<open>What deleting does in general\<close>

text \<open>
  With pairwise distinct row identifiers, deleting a present identifier removes exactly
  the row and the records with it. Deleting an absent one leaves the store as it is and
  doubles the rows, the last left out of the first copy.
\<close>

lemma findIndex_eq:
  "findIndex P xs =
     (if \<exists>x\<in>set xs. P x then int (length (takeWhile (\<lambda>x. \<not> P x) xs)) else - 1)"
  by (induction xs) (auto simp: Let_def)

lemma findIndex_absent: "\<forall>x\<in>set xs. \<not> P x \<Longrightarrow> findIndex P xs = - 1"
  by (simp add: findIndex_eq)

lemma findIndex_present:
  "\<exists>x\<in>set xs. P x \<Longrightarrow> findIndex P xs = int (length (takeWhile (\<lambda>x. \<not> P x) xs))"
  by (simp add: findIndex_eq)

lemma length_takeWhile_less: "\<exists>x\<in>set xs. \<not> Q x \<Longrightarrow> length (takeWhile Q xs) < length xs"
  by (induction xs) auto

lemma slice_prefix: "0 \<le> k \<Longrightarrow> slice xs 0 k = take (nat k) xs"
  by (auto simp: slice_def Let_def min_def)

lemma slice_from_suffix: "0 \<le> k \<Longrightarrow> slice_from xs k = drop (nat k) xs"
  by (auto simp: slice_from_def slice_def Let_def min_def)

lemma slice_all_but_last: "slice xs 0 (- 1) = butlast xs"
  by (auto simp: slice_def Let_def max_def butlast_conv_take nat_diff_distrib')

lemma deleteRow_absent:
  assumes "ident \<notin> row_id ` set (rows v)"
  shows "rows (deleteRow ident v) = butlast (rows v) @ rows v"
    and "records (recordsStore (deleteRow ident v))
           = filter (\<lambda>r. r_id r \<noteq> ident) (records (recordsStore v))"
proof -
  have "findIndex (\<lambda>row. row_id row = ident) (rows v) = - 1"
    using assms by (intro findIndex_absent) auto
  then show "rows (deleteRow ident v) = butlast (rows v) @ rows v"
    by (simp add: deleteRow_def not_undefined_def slice_all_but_last slice_from_suffix)
  show "records (recordsStore (deleteRow ident v))
           = filter (\<lambda>r. r_id r \<noteq> ident) (records (recordsStore v))"
    by (simp add: deleteRow_def Let_def not_undefined_def removeRecord_def)
qed

lemma remove_first_distinct:
  "distinct (map f xs) \<Longrightarrow> a \<in> f ` set xs \<Longrightarrow>
   take (length (takeWhile (\<lambda>x. f x \<noteq> a) xs)) xs @ drop (Suc (length (takeWhile (\<lambda>x. f x \<noteq> a) xs))) xs
     = filter (\<lambda>x. f x \<noteq> a) xs"
proof (induction xs)
  case Nil then show ?case by simp
next
  case (Cons x xs)
  show ?case
  proof (cases "f x = a")
    case True
    have "a \<notin> f ` set xs" using True Cons.prems(1) by simp
    then have "\<forall>y\<in>set xs. f y \<noteq> a" by blast
    then have "filter (\<lambda>x. f x \<noteq> a) xs = xs" by (simp add: filter_id_conv)
    then show ?thesis using True by simp
  next
    case False
    then show ?thesis using Cons by auto
  qed
qed

lemma deleteRow_present:
  assumes "distinct (map row_id (rows v))" and "ident \<in> row_id ` set (rows v)"
  shows "rows (deleteRow ident v) = filter (\<lambda>row. row_id row \<noteq> ident) (rows v)"
    and "length (rows (deleteRow ident v)) + 1 = length (rows v)"
    and "records (recordsStore (deleteRow ident v))
           = filter (\<lambda>r. r_id r \<noteq> ident) (records (recordsStore v))"
proof -
  let ?k = "length (takeWhile (\<lambda>row. row_id row \<noteq> ident) (rows v))"
  have idx: "findIndex (\<lambda>row. row_id row = ident) (rows v) = int ?k"
    using assms(2) by (subst findIndex_present) auto
  have "rows (deleteRow ident v) = take ?k (rows v) @ drop (Suc ?k) (rows v)"
    by (simp add: deleteRow_def idx not_undefined_def slice_prefix slice_from_suffix nat_add_distrib)
  then show rows': "rows (deleteRow ident v) = filter (\<lambda>row. row_id row \<noteq> ident) (rows v)"
    using remove_first_distinct [OF assms] by simp
  have "?k < length (rows v)"
    using assms(2) by (intro length_takeWhile_less) auto
  then show "length (rows (deleteRow ident v)) + 1 = length (rows v)"
    using \<open>rows (deleteRow ident v) = take ?k (rows v) @ drop (Suc ?k) (rows v)\<close> by simp
  show "records (recordsStore (deleteRow ident v))
           = filter (\<lambda>r. r_id r \<noteq> ident) (records (recordsStore v))"
    by (simp add: deleteRow_def Let_def not_undefined_def removeRecord_def)
qed

section \<open>The store's update\<close>

lemma length_assign_found: "length (assign_found i p recs) = length recs"
  by (induction recs) auto

lemma find_assign_found:
  "find (\<lambda>r. r_id r = i) recs = Some r \<Longrightarrow> p_id p = None \<Longrightarrow>
   find (\<lambda>r. r_id r = i) (assign_found i p recs) = Some (object_assign r p)"
  by (induction recs) (auto simp: object_assign_def)

text \<open>The position of the first record with the identifier.\<close>

lemma first_position:
  "find (\<lambda>r. r_id r = i) recs = Some r \<Longrightarrow>
   length (takeWhile (\<lambda>r. r_id r \<noteq> i) recs) < length recs
   \<and> recs ! length (takeWhile (\<lambda>r. r_id r \<noteq> i) recs) = r"
  by (induction recs) (auto split: if_splits)

lemma assign_found_update:
  "find (\<lambda>r. r_id r = i) recs = Some r \<Longrightarrow>
   assign_found i p recs = recs[length (takeWhile (\<lambda>r. r_id r \<noteq> i) recs) := object_assign r p]"
  by (induction recs) (auto split: if_splits)

text \<open>
  C8: \<open>store_updateRecord i p\<close> leaves the whole state unchanged when no record has the
  identifier \<open>i\<close>. Otherwise, with \<open>k\<close> the position of the first record \<open>r\<close> with that
  identifier, the list keeps its length, position \<open>k\<close> holds \<open>r\<close> with the fields of \<open>p\<close>
  assigned, and every other position holds what it held. Assigning overwrites each field
  that \<open>p\<close> names and keeps each field that it does not.
\<close>

theorem store_updateRecord_frame:
  "(find (\<lambda>r. r_id r = i) (records st) = None \<longrightarrow> store_updateRecord i p st = st)
   \<and> (\<forall>r. find (\<lambda>r. r_id r = i) (records st) = Some r \<longrightarrow>
         (let k = length (takeWhile (\<lambda>r. r_id r \<noteq> i) (records st));
              recs' = records (store_updateRecord i p st)
          in k < length (records st) \<and> records st ! k = r
             \<and> length recs' = length (records st)
             \<and> recs' ! k = object_assign r p
             \<and> (\<forall>j < length (records st). j \<noteq> k \<longrightarrow> recs' ! j = records st ! j)))
   \<and> r_id (object_assign r p) = (case p_id p of None \<Rightarrow> r_id r | Some v \<Rightarrow> v)
   \<and> r_tags (object_assign r p) = (case p_tags p of None \<Rightarrow> r_tags r | Some v \<Rightarrow> v)
   \<and> r_type (object_assign r p) = (case p_type p of None \<Rightarrow> r_type r | Some v \<Rightarrow> v)
   \<and> r_login (object_assign r p) = (case p_login p of None \<Rightarrow> r_login r | Some v \<Rightarrow> v)
   \<and> r_password (object_assign r p) = (case p_password p of None \<Rightarrow> r_password r | Some v \<Rightarrow> v)"
proof -
  have none: "find (\<lambda>r. r_id r = i) (records st) = None \<longrightarrow> store_updateRecord i p st = st"
    by (simp add: store_updateRecord_def)
  have some: "\<forall>r. find (\<lambda>r. r_id r = i) (records st) = Some r \<longrightarrow>
         (let k = length (takeWhile (\<lambda>r. r_id r \<noteq> i) (records st));
              recs' = records (store_updateRecord i p st)
          in k < length (records st) \<and> records st ! k = r
             \<and> length recs' = length (records st)
             \<and> recs' ! k = object_assign r p
             \<and> (\<forall>j < length (records st). j \<noteq> k \<longrightarrow> recs' ! j = records st ! j))"
  proof (intro allI impI)
    fix r assume f: "find (\<lambda>r. r_id r = i) (records st) = Some r"
    have recs': "records (store_updateRecord i p st)
        = (records st)[length (takeWhile (\<lambda>r. r_id r \<noteq> i) (records st)) := object_assign r p]"
      using f by (simp add: store_updateRecord_def assign_found_update)
    show "let k = length (takeWhile (\<lambda>r. r_id r \<noteq> i) (records st));
              recs' = records (store_updateRecord i p st)
          in k < length (records st) \<and> records st ! k = r
             \<and> length recs' = length (records st)
             \<and> recs' ! k = object_assign r p
             \<and> (\<forall>j < length (records st). j \<noteq> k \<longrightarrow> recs' ! j = records st ! j)"
      using first_position [OF f] unfolding Let_def recs' by simp
  qed
  show ?thesis using none some by (simp add: object_assign_def)
qed

text \<open>
  On the initial list: an update of the identifier 7 changes nothing; an update of the login
  of the identifier 2 changes the second record's login and nothing else.
\<close>

theorem store_updateRecord_frame_witness:
  "store_updateRecord 7 (no_fields\<lparr>p_login := Some (ascii ''ab'')\<rparr>) initial_state = initial_state
   \<and> length (records (store_updateRecord 2 (no_fields\<lparr>p_login := Some (ascii ''ab'')\<rparr>) initial_state)) = 3
   \<and> records (store_updateRecord 2 (no_fields\<lparr>p_login := Some (ascii ''ab'')\<rparr>) initial_state) ! 1
       = (records initial_state ! 1)\<lparr>r_login := ascii ''ab''\<rparr>
   \<and> records (store_updateRecord 2 (no_fields\<lparr>p_login := Some (ascii ''ab'')\<rparr>) initial_state) ! 0
       = records initial_state ! 0
   \<and> records (store_updateRecord 2 (no_fields\<lparr>p_login := Some (ascii ''ab'')\<rparr>) initial_state) ! 2
       = records initial_state ! 2"
proof -
  let ?p = "no_fields\<lparr>p_login := Some (ascii ''ab'')\<rparr>"
  have absent: "find (\<lambda>r. r_id r = 7) (records initial_state) = None"
    by (simp add: initial_state_def)
  have present: "find (\<lambda>r. r_id r = 2) (records initial_state) = Some (records initial_state ! 1)"
    by (simp add: initial_state_def)
  have k: "length (takeWhile (\<lambda>r. r_id r \<noteq> 2) (records initial_state)) = 1"
    by (simp add: initial_state_def)
  have len: "length (records initial_state) = 3"
    by (simp add: initial_state_def)
  have assign: "object_assign (records initial_state ! 1) ?p
                  = (records initial_state ! 1)\<lparr>r_login := ascii ''ab''\<rparr>"
    by (simp add: object_assign_def no_fields_def)
  from store_updateRecord_frame [of 7 initial_state ?p] absent
  have a: "store_updateRecord 7 ?p initial_state = initial_state"
    by blast
  from store_updateRecord_frame [of 2 initial_state ?p] present
  have "let k = length (takeWhile (\<lambda>r. r_id r \<noteq> 2) (records initial_state));
            recs' = records (store_updateRecord 2 ?p initial_state)
        in k < length (records initial_state) \<and> records initial_state ! k = records initial_state ! 1
           \<and> length recs' = length (records initial_state)
           \<and> recs' ! k = object_assign (records initial_state ! 1) ?p
           \<and> (\<forall>j < length (records initial_state). j \<noteq> k \<longrightarrow> recs' ! j = records initial_state ! j)"
    by blast
  then have b: "length (records (store_updateRecord 2 ?p initial_state)) = 3
      \<and> records (store_updateRecord 2 ?p initial_state) ! 1 = (records initial_state ! 1)\<lparr>r_login := ascii ''ab''\<rparr>
      \<and> (\<forall>j < 3. j \<noteq> 1 \<longrightarrow> records (store_updateRecord 2 ?p initial_state) ! j = records initial_state ! j)"
    unfolding Let_def k len assign by simp
  then have "records (store_updateRecord 2 ?p initial_state) ! 0 = records initial_state ! 0"
    and "records (store_updateRecord 2 ?p initial_state) ! 2 = records initial_state ! 2"
    by simp_all
  with a b show ?thesis by simp
qed

section \<open>Adding a row\<close>

lemma scale_small: "a < 2 ^ 53 \<Longrightarrow> scale a = 0"
  by (subst scale.simps) simp

lemma scale_2_53: "scale (2 ^ 53) = 1"
  by (subst scale.simps) (simp add: scale_small)

text \<open>Up to \<open>2^53\<close> in magnitude every integer is a double: nothing is rounded.\<close>

lemma to_double_exact:
  assumes "\<bar>x\<bar> \<le> 2 ^ 53"
  shows "to_double x = x"
proof (cases "\<bar>x\<bar> < 2 ^ 53")
  case True
  then show ?thesis by (simp add: to_double_def scale_small Let_def mult_sgn_abs)
next
  case False
  then have a: "\<bar>x\<bar> = 2 ^ 53" using assms by simp
  have "to_double x = sgn x * \<bar>x\<bar>"
    unfolding to_double_def a Let_def scale_2_53 by simp
  then show ?thesis by (simp add: mult_sgn_abs)
qed

lemma latestId_Max:
  assumes "rs \<noteq> []" and "length rs \<le> max_arguments"
    and "\<forall>row\<in>set rs. \<bar>row_id row\<bar> < 2 ^ 53"
  shows "latestId max_arguments rs = Inr (Max (row_id ` set rs) + 1)"
proof (cases rs)
  case Nil
  with assms show ?thesis by simp
next
  case (Cons a list)
  have m: "fold max (map row_id list) (row_id a) = Max (row_id ` set rs)"
    using Max.set_eq_fold [of "row_id a" "map row_id list"] Cons by simp
  have "Max (row_id ` set rs) \<in> row_id ` set rs"
    using assms(1) by (intro Max_in) auto
  then have "\<bar>Max (row_id ` set rs)\<bar> < 2 ^ 53" using assms(3) by auto
  then have "to_double (Max (row_id ` set rs) + 1) = Max (row_id ` set rs) + 1"
    by (intro to_double_exact) linarith
  then show ?thesis
    using Cons assms(2) m by (simp add: latestId_def number_add_def)
qed

lemma Max_plus_one_fresh:
  assumes "rs \<noteq> []"
  shows "Max (row_id ` set rs) + 1 \<notin> row_id ` set rs"
proof
  assume "Max (row_id ` set rs) + 1 \<in> row_id ` set rs"
  then have "Max (row_id ` set rs) + 1 \<le> Max (row_id ` set rs)"
    by (intro Max_ge) auto
  then show False by simp
qed

text \<open>
  C9, as the claim states it, gives the new record the greatest identifier plus one,
  distinct from every identifier there is, whatever the rows. The sum is a double: for
  a single row with the identifier \<open>2^53 = 9007199254740992\<close> it is \<open>2^53\<close> again, so
  the new record gets the identifier of the old one.
\<close>

theorem addRow_big_id_counterexample:
  "map row_id (rows (mount \<lparr>records = [newRecord 9007199254740992]\<rparr>)) = [9007199254740992]
   \<and> fst (addRow 65535 (mount \<lparr>records = [newRecord 9007199254740992]\<rparr>)) = None
   \<and> map row_id (rows (snd (addRow 65535 (mount \<lparr>records = [newRecord 9007199254740992]\<rparr>))))
       = [9007199254740992, 9007199254740992]
   \<and> map r_id (records (recordsStore
          (snd (addRow 65535 (mount \<lparr>records = [newRecord 9007199254740992]\<rparr>)))))
       = [9007199254740992, 9007199254740992]"
proof -
  have "scale 9007199254740993 = 1"
    by (subst scale.simps) (simp add: scale_small)
  then have "to_double 9007199254740993 = 9007199254740992"
    by (simp add: to_double_def Let_def)
  then have "latestId 65535 (rows (mount \<lparr>records = [newRecord 9007199254740992]\<rparr>))
             = Inr 9007199254740992"
    by (simp add: latestId_def mount_def constructRow_def newRecord_def number_add_def)
  then show ?thesis
    by (simp add: addRow_def Let_def addRecord_def)
       (simp add: mount_def constructRow_def newRecord_def)
qed

text \<open>
  C9 (amended): when the rows are no more than the engine accepts as arguments of one
  call, and every row identifier is below \<open>2^53\<close> in magnitude, \<open>addRow\<close> raises nothing
  and appends the row of a new record to the rows and the new record to the store. The
  record has empty fields and the identifier \<open>n\<close>, which is 0 for no rows and the
  greatest row identifier plus one otherwise; no row has it, and no record of the store
  has it when the store's identifiers are among the rows'.
\<close>

theorem addRow_assigns_next_id:
  assumes "length (rows v) \<le> max_arguments"
    and "\<forall>row\<in>set (rows v). \<bar>row_id row\<bar> < 2 ^ 53"
  shows "let n = (if rows v = [] then 0 else Max (row_id ` set (rows v)) + 1);
             v' = snd (addRow max_arguments v)
         in fst (addRow max_arguments v) = None
          \<and> latestId max_arguments (rows v) = Inr n
          \<and> rows v' = rows v @ [constructRow (newRecord n)]
          \<and> records (recordsStore v') = records (recordsStore v) @ [newRecord n]
          \<and> row_id (constructRow (newRecord n)) = n
          \<and> newRecord n
              = \<lparr>r_id = n, r_tags = Labels [], r_type = [], r_login = [], r_password = Some []\<rparr>
          \<and> n \<notin> row_id ` set (rows v)
          \<and> (r_id ` set (records (recordsStore v)) \<subseteq> row_id ` set (rows v)
               \<longrightarrow> n \<notin> r_id ` set (records (recordsStore v)))"
proof -
  define n where "n = (if rows v = [] then 0 else Max (row_id ` set (rows v)) + 1)"
  have l: "latestId max_arguments (rows v) = Inr n"
  proof (cases "rows v = []")
    case True
    then show ?thesis by (simp add: n_def latestId_def)
  next
    case False
    then show ?thesis using latestId_Max [OF False assms] by (simp add: n_def)
  qed
  have a: "fst (addRow max_arguments v) = None"
    using l by (simp add: addRow_def Let_def)
  have b: "rows (snd (addRow max_arguments v)) = rows v @ [constructRow (newRecord n)]"
    using l by (simp add: addRow_def Let_def)
  have c: "records (recordsStore (snd (addRow max_arguments v)))
           = records (recordsStore v) @ [newRecord n]"
    using l by (simp add: addRow_def Let_def addRecord_def)
  have d: "row_id (constructRow (newRecord n)) = n"
    by (simp add: constructRow_def newRecord_def)
  have e: "n \<notin> row_id ` set (rows v)"
    using Max_plus_one_fresh [of "rows v"] by (simp add: n_def)
  have f: "r_id ` set (records (recordsStore v)) \<subseteq> row_id ` set (rows v)
        \<longrightarrow> n \<notin> r_id ` set (records (recordsStore v))"
    using e by blast
  show ?thesis
    unfolding Let_def n_def [symmetric] using l a b c d e f by (simp add: newRecord_def)
qed

text \<open>
  With the rows 0, 1 and 3 the new identifier is 4; with no rows it is 0.
\<close>

theorem addRow_assigns_next_id_witness:
  "fst (addRow 65535 (mount \<lparr>records = map newRecord [0, 1, 3]\<rparr>)) = None
   \<and> map r_id (records (recordsStore (snd (addRow 65535 (mount \<lparr>records = map newRecord [0, 1, 3]\<rparr>)))))
       = [0, 1, 3, 4]
   \<and> map row_id (rows (snd (addRow 65535 (mount \<lparr>records = map newRecord [0, 1, 3]\<rparr>))))
       = [0, 1, 3, 4]
   \<and> fst (addRow 65535 (mount \<lparr>records = []\<rparr>)) = None
   \<and> map r_id (records (recordsStore (snd (addRow 65535 (mount \<lparr>records = []\<rparr>))))) = [0]
   \<and> map row_id (rows (snd (addRow 65535 (mount \<lparr>records = []\<rparr>)))) = [0]"
proof -
  let ?v = "mount \<lparr>records = map newRecord [0, 1, 3]\<rparr>"
  let ?e = "mount \<lparr>records = []\<rparr>"
  have ids: "map row_id (rows ?v) = [0, 1, 3]" "map r_id (records (recordsStore ?v)) = [0, 1, 3]"
    by (simp_all add: mount_def constructRow_def newRecord_def)
  have set_ids: "row_id ` set (rows ?v) = {0, 1, 3}"
    by (simp add: mount_def constructRow_def newRecord_def)
  have h1: "length (rows ?v) \<le> 65535" by (simp add: mount_def)
  have h2: "\<forall>row\<in>set (rows ?v). \<bar>row_id row\<bar> < 2 ^ 53"
    by (simp add: mount_def constructRow_def newRecord_def)
  have ne: "rows ?v \<noteq> []" by (simp add: mount_def)
  have g1: "length (rows ?e) \<le> 65535" by (simp add: mount_def)
  have g2: "\<forall>row\<in>set (rows ?e). \<bar>row_id row\<bar> < 2 ^ 53" by (simp add: mount_def)
  have emp: "rows ?e = []" "records (recordsStore ?e) = []" by (simp_all add: mount_def)
  from addRow_assigns_next_id [OF h1 h2]
  have "fst (addRow 65535 ?v) = None
      \<and> rows (snd (addRow 65535 ?v)) = rows ?v @ [constructRow (newRecord 4)]
      \<and> records (recordsStore (snd (addRow 65535 ?v))) = records (recordsStore ?v) @ [newRecord 4]"
    unfolding Let_def set_ids using ne by simp
  then have a: "fst (addRow 65535 ?v) = None
      \<and> map row_id (rows (snd (addRow 65535 ?v))) = [0, 1, 3, 4]
      \<and> map r_id (records (recordsStore (snd (addRow 65535 ?v)))) = [0, 1, 3, 4]"
    using ids by (simp add: constructRow_def newRecord_def)
  from addRow_assigns_next_id [OF g1 g2]
  have "fst (addRow 65535 ?e) = None
      \<and> rows (snd (addRow 65535 ?e)) = [constructRow (newRecord 0)]
      \<and> records (recordsStore (snd (addRow 65535 ?e))) = [newRecord 0]"
    unfolding Let_def emp by simp
  then have b: "fst (addRow 65535 ?e) = None
      \<and> map row_id (rows (snd (addRow 65535 ?e))) = [0]
      \<and> map r_id (records (recordsStore (snd (addRow 65535 ?e)))) = [0]"
    by (simp add: constructRow_def newRecord_def)
  from a b show ?thesis by simp
qed

section \<open>Commits\<close>

subsection \<open>An empty tags cell\<close>

text \<open>
  C10: when the tags cell of a row is empty and its widget validates, the commit is the
  store update with the raw empty string as the tags, and the record of that identifier
  then holds the raw string in place of a label list.
\<close>

theorem empty_tags_commit_stores_raw_string:
  assumes "fieldRef (row_tags row) = Some True"
    and "cell_value (row_tags row) = []"
    and "getRecordById st (row_id row) = Some r"
  shows "updateRecord \<lparr>props_row = row, props_col = CTags\<rparr> st
           = Inr (store_updateRecord (row_id row) (no_fields\<lparr>p_tags := Some (Raw [])\<rparr>) st)
         \<and> getRecordById (store_updateRecord (row_id row) (no_fields\<lparr>p_tags := Some (Raw [])\<rparr>) st)
             (row_id row) = Some (r\<lparr>r_tags := Raw []\<rparr>)"
proof -
  have "updateRecord \<lparr>props_row = row, props_col = CTags\<rparr> st
           = Inr (store_updateRecord (row_id row) (no_fields\<lparr>p_tags := Some (Raw [])\<rparr>) st)"
    using assms(1,2) by (simp add: updateRecord_def Let_def)
  moreover have "object_assign r (no_fields\<lparr>p_tags := Some (Raw [])\<rparr>) = r\<lparr>r_tags := Raw []\<rparr>"
    by (simp add: object_assign_def no_fields_def)
  ultimately show ?thesis
    using assms(3)
    by (simp add: getRecordById_def store_updateRecord_def find_assign_found no_fields_def)
qed

text \<open>The third initial record has no labels; its row shows the empty string.\<close>

theorem empty_tags_commit_witness:
  "updateRecord
     \<lparr>props_row = (constructRow (records initial_state ! 2))
        \<lparr>row_tags := edit (row_tags (constructRow (records initial_state ! 2))) [] True\<rparr>,
      props_col = CTags\<rparr> initial_state
     = Inr (store_updateRecord 3 (no_fields\<lparr>p_tags := Some (Raw [])\<rparr>) initial_state)
   \<and> getRecordById (store_updateRecord 3 (no_fields\<lparr>p_tags := Some (Raw [])\<rparr>) initial_state) 3
     = Some ((records initial_state ! 2)\<lparr>r_tags := Raw []\<rparr>)"
  using empty_tags_commit_stores_raw_string
    [of "(constructRow (records initial_state ! 2))
           \<lparr>row_tags := edit (row_tags (constructRow (records initial_state ! 2))) [] True\<rparr>"
        initial_state "records initial_state ! 2"]
  by (simp add: edit_def constructRow_def initial_state_def getRecordById_def)

subsection \<open>The type cell\<close>

lemma commit_type_ldap:
  assumes "fieldRef (row_type row) = Some True"
    and "cell_value (row_type row) = ascii ''ldap''"
    and "getRecordById st (row_id row) = Some r"
  shows "updateRecord \<lparr>props_row = row, props_col = CType\<rparr> st
           = Inr (store_updateRecord (row_id row) (no_fields\<lparr>p_password := Some None\<rparr>)
                   (store_updateRecord (row_id row) (no_fields\<lparr>p_type := Some (ascii ''ldap'')\<rparr>) st))"
    and "getRecordById
           (store_updateRecord (row_id row) (no_fields\<lparr>p_password := Some None\<rparr>)
              (store_updateRecord (row_id row) (no_fields\<lparr>p_type := Some (ascii ''ldap'')\<rparr>) st))
           (row_id row) = Some (r\<lparr>r_type := ascii ''ldap'', r_password := None\<rparr>)"
proof -
  define i where "i = row_id row"
  define st0 where "st0 = store_updateRecord i (no_fields\<lparr>p_type := Some (ascii ''ldap'')\<rparr>) st"
  have f: "find (\<lambda>r. r_id r = i) (records st) = Some r"
    using assms(3) by (simp add: getRecordById_def i_def)
  have f0: "find (\<lambda>r. r_id r = i) (records st0) = Some (r\<lparr>r_type := ascii ''ldap''\<rparr>)"
    using f
    by (simp add: st0_def store_updateRecord_def find_assign_found no_fields_def object_assign_def)
  show "updateRecord \<lparr>props_row = row, props_col = CType\<rparr> st
           = Inr (store_updateRecord (row_id row) (no_fields\<lparr>p_password := Some None\<rparr>)
                   (store_updateRecord (row_id row) (no_fields\<lparr>p_type := Some (ascii ''ldap'')\<rparr>) st))"
    using assms(1,2) by (simp add: updateRecord_def Let_def)
  show "getRecordById
           (store_updateRecord (row_id row) (no_fields\<lparr>p_password := Some None\<rparr>)
              (store_updateRecord (row_id row) (no_fields\<lparr>p_type := Some (ascii ''ldap'')\<rparr>) st))
           (row_id row) = Some (r\<lparr>r_type := ascii ''ldap'', r_password := None\<rparr>)"
    using f0 unfolding st0_def i_def
    by (simp add: getRecordById_def store_updateRecord_def find_assign_found no_fields_def
        object_assign_def)
qed

text \<open>
  C3: for a row whose identifier is in the store and whose type cell holds \<^verbatim>\<open>'ldap'\<close> and
  validates, the commit of the type cell is the update of the type followed by the update
  of the password to null, and the record then has the type \<^verbatim>\<open>'ldap'\<close> and a null
  password. Committing \<^verbatim>\<open>'local'\<close> in the same cell afterwards is one update of the type,
  and the password is still null.
\<close>

theorem commit_ldap_then_local_leaves_password_null:
  assumes "fieldRef (row_type row) = Some True"
    and "cell_value (row_type row) = ascii ''ldap''"
    and "getRecordById st (row_id row) = Some r"
  shows "let st1 = store_updateRecord (row_id row) (no_fields\<lparr>p_password := Some None\<rparr>)
                     (store_updateRecord (row_id row) (no_fields\<lparr>p_type := Some (ascii ''ldap'')\<rparr>) st);
             row2 = row\<lparr>row_type := (row_type row)\<lparr>cell_value := ascii ''local''\<rparr>\<rparr>;
             st2 = store_updateRecord (row_id row) (no_fields\<lparr>p_type := Some (ascii ''local'')\<rparr>) st1
         in updateRecord \<lparr>props_row = row, props_col = CType\<rparr> st = Inr st1
          \<and> getRecordById st1 (row_id row) = Some (r\<lparr>r_type := ascii ''ldap'', r_password := None\<rparr>)
          \<and> updateRecord \<lparr>props_row = row2, props_col = CType\<rparr> st1 = Inr st2
          \<and> getRecordById st2 (row_id row) = Some (r\<lparr>r_type := ascii ''local'', r_password := None\<rparr>)"
proof -
  define st1 where "st1 = store_updateRecord (row_id row) (no_fields\<lparr>p_password := Some None\<rparr>)
                     (store_updateRecord (row_id row) (no_fields\<lparr>p_type := Some (ascii ''ldap'')\<rparr>) st)"
  define st2 where "st2 = store_updateRecord (row_id row) (no_fields\<lparr>p_type := Some (ascii ''local'')\<rparr>) st1"
  have c1: "updateRecord \<lparr>props_row = row, props_col = CType\<rparr> st = Inr st1"
    unfolding st1_def by (rule commit_type_ldap(1) [OF assms])
  have f1: "getRecordById st1 (row_id row) = Some (r\<lparr>r_type := ascii ''ldap'', r_password := None\<rparr>)"
    unfolding st1_def by (rule commit_type_ldap(2) [OF assms])
  have f2: "getRecordById st2 (row_id row) = Some (r\<lparr>r_type := ascii ''local'', r_password := None\<rparr>)"
    using f1
    by (simp add: st2_def getRecordById_def store_updateRecord_def find_assign_found no_fields_def
        object_assign_def)
  have ne: "ascii ''local'' \<noteq> ascii ''ldap''" by (simp add: ascii_def)
  have c2: "updateRecord \<lparr>props_row = row\<lparr>row_type := (row_type row)\<lparr>cell_value := ascii ''local''\<rparr>\<rparr>,
                           props_col = CType\<rparr> st1 = Inr st2"
    using assms(1) ne by (simp add: updateRecord_def Let_def st2_def)
  show ?thesis
    using c1 c2 f1 f2 unfolding Let_def st2_def st1_def by simp
qed

text \<open>
  The second initial record is local with the password \<^verbatim>\<open>''\<close>: its type is set to
  \<^verbatim>\<open>'ldap'\<close> and back to \<^verbatim>\<open>'local'\<close>.
\<close>

theorem commit_ldap_then_local_witness:
  "(let row = (constructRow (records initial_state ! 1))
                \<lparr>row_type := edit (row_type (constructRow (records initial_state ! 1))) (ascii ''ldap'') True\<rparr>;
        st1 = store_updateRecord 2 (no_fields\<lparr>p_password := Some None\<rparr>)
                (store_updateRecord 2 (no_fields\<lparr>p_type := Some (ascii ''ldap'')\<rparr>) initial_state);
        row2 = row\<lparr>row_type := (row_type row)\<lparr>cell_value := ascii ''local''\<rparr>\<rparr>;
        st2 = store_updateRecord 2 (no_fields\<lparr>p_type := Some (ascii ''local'')\<rparr>) st1
    in r_password (records initial_state ! 1) = Some []
     \<and> updateRecord \<lparr>props_row = row, props_col = CType\<rparr> initial_state = Inr st1
     \<and> getRecordById st1 2
         = Some ((records initial_state ! 1)\<lparr>r_type := ascii ''ldap'', r_password := None\<rparr>)
     \<and> updateRecord \<lparr>props_row = row2, props_col = CType\<rparr> st1 = Inr st2
     \<and> getRecordById st2 2
         = Some ((records initial_state ! 1)\<lparr>r_type := ascii ''local'', r_password := None\<rparr>))"
proof -
  let ?row = "(constructRow (records initial_state ! 1))
                \<lparr>row_type := edit (row_type (constructRow (records initial_state ! 1))) (ascii ''ldap'') True\<rparr>"
  have h1: "fieldRef (row_type ?row) = Some True" by (simp add: edit_def)
  have h2: "cell_value (row_type ?row) = ascii ''ldap''" by (simp add: edit_def)
  have i: "row_id ?row = 2" by (simp add: constructRow_def initial_state_def)
  have h3: "getRecordById initial_state (row_id ?row) = Some (records initial_state ! 1)"
    unfolding i by (simp add: getRecordById_def initial_state_def)
  have pw: "r_password (records initial_state ! 1) = Some []" by (simp add: initial_state_def)
  show ?thesis
    using commit_ldap_then_local_leaves_password_null [OF h1 h2 h3] pw
    unfolding i Let_def by simp
qed

section \<open>Type and password in the store\<close>

text \<open>
  C1, as the claim states it: every record with a non-null password has the type
  \<^verbatim>\<open>'ldap'\<close>, from the initial list on, and a commit of a type other than \<^verbatim>\<open>'ldap'\<close> nulls
  the password. The initial list already breaks it: its second record is local with the
  password \<^verbatim>\<open>''\<close>. And committing \<^verbatim>\<open>'local'\<close> for the first initial record, which is
  \<^verbatim>\<open>'ldap'\<close> with the password \<^verbatim>\<open>''\<close>, changes its type and leaves its password.
\<close>

theorem secret_invariant_counterexample:
  "\<not> list_all (\<lambda>r. r_password r \<noteq> None \<longrightarrow> r_type r = ascii ''ldap'') (records initial_state)
   \<and> r_type (records initial_state ! 0) = ascii ''ldap''
   \<and> r_password (records initial_state ! 0) = Some []
   \<and> updateRecord
        \<lparr>props_row = (constructRow (records initial_state ! 0))
           \<lparr>row_type := edit (row_type (constructRow (records initial_state ! 0))) (ascii ''local'') True\<rparr>,
         props_col = CType\<rparr> initial_state
       = Inr (initial_state\<lparr>records :=
                (records initial_state)[0 := (records initial_state ! 0)\<lparr>r_type := ascii ''local''\<rparr>]\<rparr>)"
  by (simp add: initial_state_def updateRecord_def constructRow_def edit_def store_updateRecord_def
      object_assign_def no_fields_def ascii_def Let_def)

lemma list_all_assign_found:
  "list_all Q recs \<Longrightarrow> (\<And>r. find (\<lambda>r. r_id r = i) recs = Some r \<Longrightarrow> Q (object_assign r p)) \<Longrightarrow>
   list_all Q (assign_found i p recs)"
  by (induction recs) (auto split: if_splits)

lemma list_all_assign_found_twice:
  "list_all Q recs \<Longrightarrow> p_id p1 = None \<Longrightarrow>
   (\<And>r. find (\<lambda>r. r_id r = i) recs = Some r \<Longrightarrow> Q (object_assign (object_assign r p1) p2)) \<Longrightarrow>
   list_all Q (assign_found i p2 (assign_found i p1 recs))"
  by (induction recs) (auto split: if_splits simp: object_assign_def)

lemma list_all_store_updateRecord:
  assumes "list_all Q (records st)"
    and "\<And>r. find (\<lambda>r. r_id r = i) (records st) = Some r \<Longrightarrow> Q (object_assign r p)"
  shows "list_all Q (records (store_updateRecord i p st))"
  using assms by (auto simp: store_updateRecord_def list_all_assign_found split: option.split)

lemma store_updateRecord_twice:
  assumes "p_id p1 = None"
  shows "records (store_updateRecord i p2 (store_updateRecord i p1 st))
         = (case find (\<lambda>r. r_id r = i) (records st) of
              None \<Rightarrow> records st
            | Some r \<Rightarrow> assign_found i p2 (assign_found i p1 (records st)))"
  using assms by (auto simp: store_updateRecord_def find_assign_found split: option.split)

lemma list_all_store_updateRecord_twice:
  assumes "list_all Q (records st)" and "p_id p1 = None"
    and "\<And>r. find (\<lambda>r. r_id r = i) (records st) = Some r
           \<Longrightarrow> Q (object_assign (object_assign r p1) p2)"
  shows "list_all Q (records (store_updateRecord i p2 (store_updateRecord i p1 st)))"
  using assms
  by (auto simp: store_updateRecord_twice list_all_assign_found_twice split: option.split)

text \<open>
  A commit keeps every \<^verbatim>\<open>'ldap'\<close> record without a password, as long as a password is
  only committed for a record that is not \<^verbatim>\<open>'ldap'\<close> in the store.
\<close>

lemma commit_preserves_ldap_null:
  assumes inv: "list_all (\<lambda>r. r_type r = ascii ''ldap'' \<longrightarrow> r_password r = None) (records st)"
    and res: "updateRecord props st = Inr st'"
    and guard: "props_col props = CPassword \<longrightarrow>
       (\<forall>r. getRecordById st (row_id (props_row props)) = Some r \<longrightarrow> r_type r \<noteq> ascii ''ldap'')"
  shows "list_all (\<lambda>r. r_type r = ascii ''ldap'' \<longrightarrow> r_password r = None) (records st')"
proof (cases "row_cell (props_row props) (props_col props)")
  case None
  then show ?thesis using res by (simp add: updateRecord_def)
next
  case (Some c)
  show ?thesis
  proof (cases "fieldRef c = Some True")
    case False
    then have "st' = st"
      using res Some by (auto simp: updateRecord_def Let_def split: option.splits if_splits)
    then show ?thesis using inv by simp
  next
    case True
    let ?i = "row_id (props_row props)"
    let ?Q = "\<lambda>r. r_type r = ascii ''ldap'' \<longrightarrow> r_password r = None"
    show ?thesis
    proof (cases "props_col props = CType \<and> cell_value c = ascii ''ldap''")
      case True
      then have st': "st' = store_updateRecord ?i (no_fields\<lparr>p_password := Some None\<rparr>)
                        (store_updateRecord ?i (no_fields\<lparr>p_type := Some (ascii ''ldap'')\<rparr>) st)"
        using res Some \<open>fieldRef c = Some True\<close> by (simp add: updateRecord_def Let_def)
      show ?thesis unfolding st'
        by (rule list_all_store_updateRecord_twice [OF inv])
           (simp_all add: no_fields_def object_assign_def)
    next
      case False
      then have st': "st' = store_updateRecord ?i (committed_fields (props_col props) (cell_value c)) st"
        using res Some \<open>fieldRef c = Some True\<close> by (auto simp: updateRecord_def Let_def)
      have "?Q (object_assign r (committed_fields (props_col props) (cell_value c)))"
        if f: "find (\<lambda>r. r_id r = ?i) (records st) = Some r" for r
      proof -
        have "r \<in> set (records st)" using f by (auto simp: find_Some_iff)
        then have Qr: "?Q r" using inv by (simp add: list_all_iff)
        show ?thesis
        proof (cases "props_col props")
          case CPassword
          then have "r_type r \<noteq> ascii ''ldap''" using guard f by (simp add: getRecordById_def)
          then show ?thesis using CPassword by (simp add: object_assign_def no_fields_def)
        next
          case CType
          then show ?thesis using False Qr by (simp add: object_assign_def no_fields_def)
        qed (use Qr in \<open>simp_all add: object_assign_def no_fields_def\<close>)
      qed
      then show ?thesis unfolding st' by (rule list_all_store_updateRecord [OF inv])
    qed
  qed
qed

text \<open>Which passwords an update touches.\<close>

lemma passwords_assign_found:
  "p_password p = None \<Longrightarrow> map r_password (assign_found i p recs) = map r_password recs"
  by (induction recs) (auto simp: object_assign_def)

lemma passwords_assign_found_twice:
  "find (\<lambda>r. r_id r = i) recs = Some r \<Longrightarrow> p_id p1 = None \<Longrightarrow>
   map r_password (assign_found i p2 (assign_found i p1 recs))
     = (map r_password recs)[length (takeWhile (\<lambda>r. r_id r \<noteq> i) recs)
          := r_password (object_assign (object_assign r p1) p2)]"
  by (induction recs) (auto simp: object_assign_def split: if_splits)

lemma commit_type_ldap_passwords:
  assumes "fieldRef (row_type row) = Some True"
    and "cell_value (row_type row) = ascii ''ldap''"
    and "getRecordById st (row_id row) = Some r"
  shows "\<exists>st'. updateRecord \<lparr>props_row = row, props_col = CType\<rparr> st = Inr st'
           \<and> getRecordById st' (row_id row) = Some (r\<lparr>r_type := ascii ''ldap'', r_password := None\<rparr>)
           \<and> map r_password (records st')
               = (map r_password (records st))
                   [length (takeWhile (\<lambda>x. r_id x \<noteq> row_id row) (records st)) := None]"
proof -
  let ?p1 = "no_fields\<lparr>p_type := Some (ascii ''ldap'')\<rparr>"
  let ?p2 = "no_fields\<lparr>p_password := Some None\<rparr>"
  let ?st' = "store_updateRecord (row_id row) ?p2 (store_updateRecord (row_id row) ?p1 st)"
  have f: "find (\<lambda>x. r_id x = row_id row) (records st) = Some r"
    using assms(3) by (simp add: getRecordById_def)
  have id1: "p_id ?p1 = None" by (simp add: no_fields_def)
  have "records ?st' = assign_found (row_id row) ?p2 (assign_found (row_id row) ?p1 (records st))"
    using f by (simp add: store_updateRecord_twice [OF id1])
  then have "map r_password (records ?st')
      = (map r_password (records st))
          [length (takeWhile (\<lambda>x. r_id x \<noteq> row_id row) (records st))
             := r_password (object_assign (object_assign r ?p1) ?p2)]"
    using passwords_assign_found_twice [OF f id1] by simp
  then have "map r_password (records ?st')
      = (map r_password (records st))
          [length (takeWhile (\<lambda>x. r_id x \<noteq> row_id row) (records st)) := None]"
    by (simp add: object_assign_def no_fields_def)
  then show ?thesis
    using commit_type_ldap [OF assms] by blast
qed

lemma commit_type_other_passwords:
  assumes "fieldRef (row_type row) = Some True"
    and "cell_value (row_type row) \<noteq> ascii ''ldap''"
    and "getRecordById st (row_id row) = Some r"
  shows "\<exists>st'. updateRecord \<lparr>props_row = row, props_col = CType\<rparr> st = Inr st'
           \<and> getRecordById st' (row_id row) = Some (r\<lparr>r_type := cell_value (row_type row)\<rparr>)
           \<and> map r_password (records st') = map r_password (records st)"
proof -
  let ?p = "no_fields\<lparr>p_type := Some (cell_value (row_type row))\<rparr>"
  let ?st' = "store_updateRecord (row_id row) ?p st"
  have f: "find (\<lambda>x. r_id x = row_id row) (records st) = Some r"
    using assms(3) by (simp add: getRecordById_def)
  have c: "updateRecord \<lparr>props_row = row, props_col = CType\<rparr> st = Inr ?st'"
    using assms(1,2) by (simp add: updateRecord_def Let_def)
  have g: "getRecordById ?st' (row_id row) = Some (r\<lparr>r_type := cell_value (row_type row)\<rparr>)"
    using f
    by (simp add: getRecordById_def store_updateRecord_def find_assign_found no_fields_def
        object_assign_def)
  have m: "map r_password (records ?st') = map r_password (records st)"
    using f by (simp add: store_updateRecord_def passwords_assign_found no_fields_def)
  from c g m show ?thesis by blast
qed

text \<open>
  C1 (amended): the code keeps the converse relation. If every record of type \<^verbatim>\<open>'ldap'\<close>
  has a null password, this still holds after \<open>addRow\<close> (the store's \<open>addRecord\<close>), after
  \<open>deleteRow\<close> (the store's \<open>removeRecord\<close>) and after every commit (the store's
  \<open>updateRecord\<close>) of a tags, type or login cell, and of the password cell of a record
  that is not \<^verbatim>\<open>'ldap'\<close> in the store. A validated commit of the type \<^verbatim>\<open>'ldap'\<close> for a row
  whose identifier is in the store makes the first record with the identifier \<^verbatim>\<open>'ldap'\<close>
  with a null password, and changes no other password. A validated commit of any other
  type value writes the type of that record and leaves every password as it is.
\<close>

theorem ldap_password_null_preserved:
  assumes "list_all (\<lambda>r. r_type r = ascii ''ldap'' \<longrightarrow> r_password r = None)
             (records (recordsStore v))"
  shows "list_all (\<lambda>r. r_type r = ascii ''ldap'' \<longrightarrow> r_password r = None)
           (records (recordsStore (snd (addRow max_arguments v))))
       \<and> list_all (\<lambda>r. r_type r = ascii ''ldap'' \<longrightarrow> r_password r = None)
           (records (recordsStore (deleteRow i v)))
       \<and> (\<forall>st'. updateRecord props (recordsStore v) = Inr st'
              \<and> (props_col props = CPassword \<longrightarrow>
                   (\<forall>r. getRecordById (recordsStore v) (row_id (props_row props)) = Some r
                        \<longrightarrow> r_type r \<noteq> ascii ''ldap''))
            \<longrightarrow> list_all (\<lambda>r. r_type r = ascii ''ldap'' \<longrightarrow> r_password r = None) (records st'))
       \<and> (\<forall>r. fieldRef (row_type row) = Some True \<and> cell_value (row_type row) = ascii ''ldap''
              \<and> getRecordById (recordsStore v) (row_id row) = Some r
            \<longrightarrow> (\<exists>st'. updateRecord \<lparr>props_row = row, props_col = CType\<rparr> (recordsStore v) = Inr st'
                      \<and> getRecordById st' (row_id row)
                          = Some (r\<lparr>r_type := ascii ''ldap'', r_password := None\<rparr>)
                      \<and> map r_password (records st')
                          = (map r_password (records (recordsStore v)))
                              [length (takeWhile (\<lambda>x. r_id x \<noteq> row_id row)
                                         (records (recordsStore v))) := None]))
       \<and> (\<forall>r. fieldRef (row_type row2) = Some True \<and> cell_value (row_type row2) \<noteq> ascii ''ldap''
              \<and> getRecordById (recordsStore v) (row_id row2) = Some r
            \<longrightarrow> (\<exists>st'. updateRecord \<lparr>props_row = row2, props_col = CType\<rparr> (recordsStore v) = Inr st'
                      \<and> getRecordById st' (row_id row2)
                          = Some (r\<lparr>r_type := cell_value (row_type row2)\<rparr>)
                      \<and> map r_password (records st') = map r_password (records (recordsStore v))))"
proof -
  let ?Q = "\<lambda>r. r_type r = ascii ''ldap'' \<longrightarrow> r_password r = None"
  have ne: "[] \<noteq> ascii ''ldap''" by (simp add: ascii_def)
  have a: "list_all ?Q (records (recordsStore (snd (addRow max_arguments v))))"
    using assms ne
    by (simp add: addRow_def Let_def addRecord_def newRecord_def split: sum.split)
  have d: "list_all ?Q (records (recordsStore (deleteRow i v)))"
    using assms by (simp add: deleteRow_def Let_def not_undefined_def removeRecord_def list_all_iff)
  have c: "\<forall>st'. updateRecord props (recordsStore v) = Inr st'
              \<and> (props_col props = CPassword \<longrightarrow>
                   (\<forall>r. getRecordById (recordsStore v) (row_id (props_row props)) = Some r
                        \<longrightarrow> r_type r \<noteq> ascii ''ldap''))
            \<longrightarrow> list_all ?Q (records st')"
    using commit_preserves_ldap_null [OF assms] by blast
  have n: "\<forall>r. fieldRef (row_type row) = Some True \<and> cell_value (row_type row) = ascii ''ldap''
              \<and> getRecordById (recordsStore v) (row_id row) = Some r
            \<longrightarrow> (\<exists>st'. updateRecord \<lparr>props_row = row, props_col = CType\<rparr> (recordsStore v) = Inr st'
                      \<and> getRecordById st' (row_id row)
                          = Some (r\<lparr>r_type := ascii ''ldap'', r_password := None\<rparr>)
                      \<and> map r_password (records st')
                          = (map r_password (records (recordsStore v)))
                              [length (takeWhile (\<lambda>x. r_id x \<noteq> row_id row)
                                         (records (recordsStore v))) := None])"
    using commit_type_ldap_passwords by blast
  have k: "\<forall>r. fieldRef (row_type row2) = Some True \<and> cell_value (row_type row2) \<noteq> ascii ''ldap''
              \<and> getRecordById (recordsStore v) (row_id row2) = Some r
            \<longrightarrow> (\<exists>st'. updateRecord \<lparr>props_row = row2, props_col = CType\<rparr> (recordsStore v) = Inr st'
                      \<and> getRecordById st' (row_id row2)
                          = Some (r\<lparr>r_type := cell_value (row_type row2)\<rparr>)
                      \<and> map r_password (records st') = map r_password (records (recordsStore v)))"
    using commit_type_other_passwords by blast
  show ?thesis using a d c n k by blast
qed

text \<open>
  The store once the first initial record, which is \<^verbatim>\<open>'ldap'\<close>, has a null password:
  every \<^verbatim>\<open>'ldap'\<close> record is without a password, and there is one. Adding a row, deleting
  the third row and committing \<^verbatim>\<open>'ldap'\<close> for the second record, which is local with the
  password \<^verbatim>\<open>''\<close>, keep it so; that commit nulls the second password only, and committing
  \<^verbatim>\<open>'local'\<close> for the first record changes no password.
\<close>

theorem ldap_password_null_preserved_witness:
  "(let st = store_updateRecord 1 (no_fields\<lparr>p_password := Some None\<rparr>) initial_state;
        rowB = (constructRow (records st ! 1))
                 \<lparr>row_type := edit (row_type (constructRow (records st ! 1))) (ascii ''ldap'') True\<rparr>;
        stB = store_updateRecord 2 (no_fields\<lparr>p_password := Some None\<rparr>)
                (store_updateRecord 2 (no_fields\<lparr>p_type := Some (ascii ''ldap'')\<rparr>) st);
        rowA = (constructRow (records st ! 0))
                 \<lparr>row_type := edit (row_type (constructRow (records st ! 0))) (ascii ''local'') True\<rparr>;
        stA = store_updateRecord 1 (no_fields\<lparr>p_type := Some (ascii ''local'')\<rparr>) st
    in map r_type (records st) = [ascii ''ldap'', ascii ''local'', []]
     \<and> map r_password (records st) = [None, Some [], Some znachenie]
     \<and> list_all (\<lambda>r. r_type r = ascii ''ldap'' \<longrightarrow> r_password r = None) (records st)
     \<and> list_all (\<lambda>r. r_type r = ascii ''ldap'' \<longrightarrow> r_password r = None)
          (records (recordsStore (snd (addRow 65535 (mount st)))))
     \<and> map r_id (records (recordsStore (snd (addRow 65535 (mount st))))) = [1, 2, 3, 4]
     \<and> list_all (\<lambda>r. r_type r = ascii ''ldap'' \<longrightarrow> r_password r = None)
          (records (recordsStore (deleteRow 3 (mount st))))
     \<and> map r_id (records (recordsStore (deleteRow 3 (mount st)))) = [1, 2]
     \<and> updateRecord \<lparr>props_row = rowB, props_col = CType\<rparr> st = Inr stB
     \<and> list_all (\<lambda>r. r_type r = ascii ''ldap'' \<longrightarrow> r_password r = None) (records stB)
     \<and> map r_type (records stB) = [ascii ''ldap'', ascii ''ldap'', []]
     \<and> map r_password (records stB) = [None, None, Some znachenie]
     \<and> updateRecord \<lparr>props_row = rowA, props_col = CType\<rparr> st = Inr stA
     \<and> map r_type (records stA) = [ascii ''local'', ascii ''local'', []]
     \<and> map r_password (records stA) = [None, Some [], Some znachenie])"
proof -
  define st where "st = store_updateRecord 1 (no_fields\<lparr>p_password := Some None\<rparr>) initial_state"
  define rowB where "rowB = (constructRow (records st ! 1))
                 \<lparr>row_type := edit (row_type (constructRow (records st ! 1))) (ascii ''ldap'') True\<rparr>"
  define stB where "stB = store_updateRecord 2 (no_fields\<lparr>p_password := Some None\<rparr>)
                (store_updateRecord 2 (no_fields\<lparr>p_type := Some (ascii ''ldap'')\<rparr>) st)"
  define rowA where "rowA = (constructRow (records st ! 0))
                 \<lparr>row_type := edit (row_type (constructRow (records st ! 0))) (ascii ''local'') True\<rparr>"
  define stA where "stA = store_updateRecord 1 (no_fields\<lparr>p_type := Some (ascii ''local'')\<rparr>) st"
  let ?Q = "\<lambda>r. r_type r = ascii ''ldap'' \<longrightarrow> r_password r = None"
  have st: "records st =
     [(records initial_state ! 0)\<lparr>r_password := None\<rparr>, records initial_state ! 1, records initial_state ! 2]"
    by (simp add: st_def initial_state_def store_updateRecord_def object_assign_def no_fields_def)
  have types: "map r_type (records st) = [ascii ''ldap'', ascii ''local'', []]"
    and pws: "map r_password (records st) = [None, Some [], Some znachenie]"
    and ids: "map r_id (records st) = [1, 2, 3]"
    unfolding st by (simp_all add: initial_state_def)
  have ne: "ascii ''local'' \<noteq> ascii ''ldap''" "[] \<noteq> ascii ''ldap''" by (simp_all add: ascii_def)
  have hyp: "list_all ?Q (records (recordsStore (mount st)))"
    unfolding st by (simp add: mount_def st initial_state_def ascii_def)
  have B1: "fieldRef (row_type rowB) = Some True" "cell_value (row_type rowB) = ascii ''ldap''"
    and B2: "row_id rowB = 2"
    by (simp_all add: rowB_def edit_def constructRow_def st initial_state_def)
  have A1: "fieldRef (row_type rowA) = Some True" "cell_value (row_type rowA) = ascii ''local''"
    and A2: "row_id rowA = 1"
    by (simp_all add: rowA_def edit_def constructRow_def st initial_state_def)
  have cB: "updateRecord \<lparr>props_row = rowB, props_col = CType\<rparr> st = Inr stB"
    using B1 B2 by (simp add: updateRecord_def Let_def stB_def)
  have cA: "updateRecord \<lparr>props_row = rowA, props_col = CType\<rparr> st = Inr stA"
    using A1 A2 ne by (simp add: updateRecord_def Let_def stA_def)
  have gB: "getRecordById st 2 = Some (records initial_state ! 1)"
    and gA: "getRecordById st 1 = Some ((records initial_state ! 0)\<lparr>r_password := None\<rparr>)"
    unfolding getRecordById_def st by (simp_all add: initial_state_def)
  have kB: "length (takeWhile (\<lambda>x. r_id x \<noteq> 2) (records st)) = 1"
    unfolding st by (simp add: initial_state_def)
  note inst = ldap_password_null_preserved
    [OF hyp, of 65535 3 "\<lparr>props_row = rowB, props_col = CType\<rparr>" rowB rowA]
  have store: "recordsStore (mount st) = st" by (simp add: mount_def)
  from inst have a: "list_all ?Q (records (recordsStore (snd (addRow 65535 (mount st)))))"
    by blast
  from inst have d: "list_all ?Q (records (recordsStore (deleteRow 3 (mount st))))"
    by blast
  from inst cB have c: "list_all ?Q (records stB)"
    unfolding store by simp
  from inst B1 B2 gB cB kB have pB: "map r_password (records stB) = [None, None, Some znachenie]"
    unfolding store pws by simp
  from inst A1 A2 gA cA ne have pA: "map r_password (records stA) = [None, Some [], Some znachenie]"
    unfolding store pws by simp
  have tB: "map r_type (records stB) = [ascii ''ldap'', ascii ''ldap'', []]"
    unfolding stB_def
    by (simp add: store_updateRecord_def st initial_state_def object_assign_def no_fields_def)
  have tA: "map r_type (records stA) = [ascii ''local'', ascii ''local'', []]"
    unfolding stA_def
    by (simp add: store_updateRecord_def st initial_state_def object_assign_def no_fields_def)
  have addids: "map r_id (records (recordsStore (snd (addRow 65535 (mount st))))) = [1, 2, 3, 4]"
  proof -
    have "latestId 65535 (rows (mount st)) = Inr 4"
      by (simp add: latestId_def mount_def st constructRow_def initial_state_def number_add_def
          to_double_exact)
    then show ?thesis
      using ids by (simp add: addRow_def Let_def addRecord_def newRecord_def mount_def)
  qed
  have delids: "map r_id (records (recordsStore (deleteRow 3 (mount st)))) = [1, 2]"
    using ids by (simp add: deleteRow_def Let_def not_undefined_def removeRecord_def mount_def st initial_state_def)
  have hyp': "list_all ?Q (records st)" using hyp unfolding store .
  show ?thesis
    unfolding Let_def
    unfolding st_def [symmetric]
    unfolding rowB_def [symmetric] stB_def [symmetric] rowA_def [symmetric] stA_def [symmetric]
    using types pws hyp' a addids d delids cB c tB pB cA tA pA
    by blast
qed

end
